theory Spec2Isabelle
  imports Main "HOL-Library.AList"
begin

section \<open>Values and exceptions of the notebook server\<close>

text \<open>
  The notebook server (\<^verbatim>\<open>Extensions/notebook/notebook_server.py\<close>) keeps every
  document, request and kernel reply as the value \<^verbatim>\<open>json.load\<close> returned for it:
  nested \<^verbatim>\<open>dict\<close>s, \<^verbatim>\<open>list\<close>s, strings, integers, booleans and \<^verbatim>\<open>None\<close>.
  The type \<open>json\<close> is that value. A \<^verbatim>\<open>dict\<close> is an association list in insertion
  order: \<open>map_of\<close> reads a key and \<open>AList.update\<close> stores one, in place when the key
  exists and at the end otherwise, as Python does. Numbers are integers (floating
  point is left out); a string is a list of characters, one \<open>char\<close> per code point,
  so code points up to 255.
\<close>

datatype json =
    JNull
  | JBool bool
  | JInt int
  | JStr string
  | JArr "json list"
  | JObj "(string \<times> json) list"

text \<open>
  The exceptions the modelled code can raise or meet. \<open>KeyError\<close> carries the missing
  key, \<open>AttributeError\<close> the type name of the object and the attribute asked of it,
  the others their message.
\<close>

datatype exn =
    KeyError string
  | TypeError string
  | AttributeError string string
  | RuntimeError string
  | OSError string
  | JSONDecodeError string
  | TimeoutExpired string

definition quoted :: "string \<Rightarrow> string" where
  "quoted s = CHR 0x27 # s @ [CHR 0x27]"

text \<open>\<^verbatim>\<open>str(e)\<close>.\<close>

fun exn_str :: "exn \<Rightarrow> string" where
  "exn_str (KeyError k) = quoted k"
| "exn_str (TypeError m) = m"
| "exn_str (AttributeError t a) =
     quoted t @ '' object has no attribute '' @ quoted a"
| "exn_str (RuntimeError m) = m"
| "exn_str (OSError m) = m"
| "exn_str (JSONDecodeError m) = m"
| "exn_str (TimeoutExpired m) = m"

fun type_name :: "json \<Rightarrow> string" where
  "type_name JNull = ''NoneType''"
| "type_name (JBool b) = ''bool''"
| "type_name (JInt n) = ''int''"
| "type_name (JStr s) = ''str''"
| "type_name (JArr xs) = ''list''"
| "type_name (JObj kvs) = ''dict''"

text \<open>Python truthiness, as used by \<^verbatim>\<open>if x:\<close> and \<^verbatim>\<open>if not x:\<close>.\<close>

fun truthy :: "json \<Rightarrow> bool" where
  "truthy JNull = False"
| "truthy (JBool b) = b"
| "truthy (JInt n) = (n \<noteq> 0)"
| "truthy (JStr s) = (s \<noteq> [])"
| "truthy (JArr xs) = (xs \<noteq> [])"
| "truthy (JObj kvs) = (kvs \<noteq> [])"

text \<open>\<^verbatim>\<open>obj[key]\<close> with a string key: only a \<^verbatim>\<open>dict\<close> can answer.\<close>

fun getitem :: "json \<Rightarrow> string \<Rightarrow> exn + json" where
  "getitem (JObj kvs) k =
     (case map_of kvs k of None \<Rightarrow> Inl (KeyError k) | Some v \<Rightarrow> Inr v)"
| "getitem (JStr s) k = Inl (TypeError (''string indices must be integers, not '' @ quoted ''str''))"
| "getitem (JArr xs) k = Inl (TypeError ''list indices must be integers or slices, not str'')"
| "getitem v k = Inl (TypeError (quoted (type_name v) @ '' object is not subscriptable''))"

text \<open>\<^verbatim>\<open>obj[key] = value\<close> with a string key.\<close>

fun setitem :: "json \<Rightarrow> string \<Rightarrow> json \<Rightarrow> exn + json" where
  "setitem (JObj kvs) k x = Inr (JObj (AList.update k x kvs))"
| "setitem (JArr xs) k x = Inl (TypeError ''list indices must be integers or slices, not str'')"
| "setitem v k x =
     Inl (TypeError (quoted (type_name v) @ '' object does not support item assignment''))"

text \<open>\<^verbatim>\<open>obj.get(key, default)\<close>: a method of \<^verbatim>\<open>dict\<close> only.\<close>

definition dict_get :: "(string \<times> json) list \<Rightarrow> string \<Rightarrow> json \<Rightarrow> json" where
  "dict_get kvs k d = (case map_of kvs k of None \<Rightarrow> d | Some v \<Rightarrow> v)"

fun get_or :: "json \<Rightarrow> string \<Rightarrow> json \<Rightarrow> exn + json" where
  "get_or (JObj kvs) k d = Inr (dict_get kvs k d)"
| "get_or v k d = Inl (AttributeError (type_name v) ''get'')"

text \<open>
  \<^verbatim>\<open>for c in obj\<close>: a list yields its elements, a \<^verbatim>\<open>dict\<close> its keys, a string its
  characters; nothing else is iterable.
\<close>

fun iterate :: "json \<Rightarrow> exn + json list" where
  "iterate (JArr xs) = Inr xs"
| "iterate (JObj kvs) = Inr (map (\<lambda>kv. JStr (fst kv)) kvs)"
| "iterate (JStr s) = Inr (map (\<lambda>c. JStr [c]) s)"
| "iterate v = Inl (TypeError (quoted (type_name v) @ '' object is not iterable''))"

text \<open>Sequencing of steps that may raise.\<close>

definition and_then :: "exn + 'a \<Rightarrow> ('a \<Rightarrow> exn + 'b) \<Rightarrow> exn + 'b" where
  "and_then m f = (case m of Inl e \<Rightarrow> Inl e | Inr x \<Rightarrow> f x)"

text \<open>
  \<^verbatim>\<open>str.isspace\<close> on one code point below 256, and \<^verbatim>\<open>str.strip()\<close>.
\<close>

definition is_space :: "char \<Rightarrow> bool" where
  "is_space c = ((of_char c :: nat) \<in> {9, 10, 11, 12, 13, 28, 29, 30, 31, 32, 133, 160})"

definition strip :: "string \<Rightarrow> string" where
  "strip s = rev (dropWhile is_space (rev (dropWhile is_space s)))"

section \<open>Notebook Document Engine\<close>

text \<open>
  The cell literal that \<^verbatim>\<open>/api/cell/add\<close>, \<^verbatim>\<open>/api/cell/delete\<close> and
  \<^verbatim>\<open>new_notebook\<close> build. \<open>uuid\<close> is the text of \<^verbatim>\<open>str(uuid.uuid4())\<close>.
\<close>

definition new_cell :: "string \<Rightarrow> json \<Rightarrow> json" where
  "new_cell uuid cell_type = JObj
     [(''id'', JStr uuid),
      (''type'', cell_type),
      (''source'', JStr ''''),
      (''outputs'', JArr []),
      (''execution_count'', JNull),
      (''metadata'', JObj [])]"

text \<open>
  \<^verbatim>\<open>new_notebook(title)\<close>; \<open>now\<close> is the text of
  \<^verbatim>\<open>datetime.utcnow().isoformat()\<close>, read twice.
\<close>

definition new_notebook :: "json \<Rightarrow> string \<Rightarrow> string \<Rightarrow> string \<Rightarrow> json" where
  "new_notebook title now1 now2 uuid = JObj
     [(''nsit_format'', JStr ''1.0''),
      (''metadata'', JObj
         [(''title'', title),
          (''created'', JStr (now1 @ ''Z'')),
          (''modified'', JStr (now2 @ ''Z'')),
          (''kernel'', JStr ''scriptit''),
          (''kernel_version'', JStr ''2.0'')]),
      (''cells'', JArr [new_cell uuid (JStr ''code'')])]"

text \<open>
  \<^verbatim>\<open>[c for c in cells if c["id"] != cell_id]\<close>. The request's \<^verbatim>\<open>cell_id\<close> is a
  string, so a cell's id equals it exactly when it is that string.
\<close>

fun cells_without :: "json list \<Rightarrow> string \<Rightarrow> exn + json list" where
  "cells_without [] cell_id = Inr []"
| "cells_without (c # cs) cell_id =
     (case getitem c ''id'' of
        Inl e \<Rightarrow> Inl e
      | Inr i \<Rightarrow>
         (case cells_without cs cell_id of
            Inl e \<Rightarrow> Inl e
          | Inr kept \<Rightarrow> Inr (if i \<noteq> JStr cell_id then c # kept else kept)))"

text \<open>
  A handler of \<^verbatim>\<open>do_POST\<close> that only touches the document takes the global
  \<^verbatim>\<open>current_notebook\<close> (\<open>JNull\<close> for \<^verbatim>\<open>None\<close>) and returns what it did, an
  exception or the body it sent (\<open>None\<close> when it sent nothing), with the notebook it
  leaves behind.
\<close>

type_synonym handled = "(exn + json option) \<times> json"

text \<open>\<^verbatim>\<open>/api/cell/delete\<close>.\<close>

definition post_cell_delete :: "json \<Rightarrow> string \<Rightarrow> string \<Rightarrow> handled" where
  "post_cell_delete current_notebook cell_id uuid =
     (if truthy current_notebook then
        (case getitem current_notebook ''cells'' of
           Inl e \<Rightarrow> (Inl e, current_notebook)
         | Inr cells \<Rightarrow>
            (case iterate cells of
               Inl e \<Rightarrow> (Inl e, current_notebook)
             | Inr cs \<Rightarrow>
                (case cells_without cs cell_id of
                   Inl e \<Rightarrow> (Inl e, current_notebook)
                 | Inr kept \<Rightarrow>
                    (case setitem current_notebook ''cells''
                            (JArr (if kept = []
                                   then kept @ [new_cell uuid (JStr ''code'')]
                                   else kept)) of
                       Inl e \<Rightarrow> (Inl e, current_notebook)
                     | Inr nb \<Rightarrow> (Inr (Some (JObj [(''status'', JStr ''deleted'')])), nb)))))
      else (Inr None, current_notebook))"

text \<open>
  \<^verbatim>\<open>for i, cell in enumerate(cells): if cell["id"] == cell_id: ... break\<close>:
  the index of the first cell with that id, counting from \<open>i\<close>.
\<close>

fun find_cell :: "json list \<Rightarrow> string \<Rightarrow> nat \<Rightarrow> exn + nat option" where
  "find_cell [] cell_id i = Inr None"
| "find_cell (c # cs) cell_id i =
     (case getitem c ''id'' of
        Inl e \<Rightarrow> Inl e
      | Inr v \<Rightarrow> if v = JStr cell_id then Inr (Some i) else find_cell cs cell_id (Suc i))"

text \<open>
  \<^verbatim>\<open>cells[i], cells[j] = cells[j], cells[i]\<close>, which only a list reaches: the
  elements of a \<^verbatim>\<open>dict\<close> or a string are strings, and none of them has an id.
\<close>

fun swap_items :: "json \<Rightarrow> nat \<Rightarrow> nat \<Rightarrow> exn + json" where
  "swap_items (JArr xs) i j = Inr (JArr (xs[i := xs ! j, j := xs ! i]))"
| "swap_items v i j =
     Inl (TypeError (quoted (type_name v) @ '' object does not support item assignment''))"

text \<open>\<^verbatim>\<open>/api/cell/move\<close>.\<close>

definition post_cell_move :: "json \<Rightarrow> string \<Rightarrow> string \<Rightarrow> handled" where
  "post_cell_move current_notebook cell_id direction =
     (if truthy current_notebook then
        (case getitem current_notebook ''cells'' of
           Inl e \<Rightarrow> (Inl e, current_notebook)
         | Inr cells \<Rightarrow>
            (case iterate cells of
               Inl e \<Rightarrow> (Inl e, current_notebook)
             | Inr cs \<Rightarrow>
                (case find_cell cs cell_id 0 of
                   Inl e \<Rightarrow> (Inl e, current_notebook)
                 | Inr None \<Rightarrow>
                     (Inr (Some (JObj [(''status'', JStr ''moved'')])), current_notebook)
                 | Inr (Some i) \<Rightarrow>
                    (case (if direction = ''up'' \<and> i > 0
                           then swap_items cells i (i - 1)
                           else if direction = ''down'' \<and> int i < int (length cs) - 1
                           then swap_items cells i (i + 1)
                           else Inr cells) of
                       Inl e \<Rightarrow> (Inl e, current_notebook)
                     | Inr cells' \<Rightarrow>
                        (case setitem current_notebook ''cells'' cells' of
                           Inl e \<Rightarrow> (Inl e, current_notebook)
                         | Inr nb \<Rightarrow>
                             (Inr (Some (JObj [(''status'', JStr ''moved'')])), nb))))))
      else (Inr None, current_notebook))"

text \<open>
  \<^verbatim>\<open>for cell in cells: if cell["id"] == cell_id: <body>; break\<close>, the loop of
  \<^verbatim>\<open>/api/cell/type\<close> and of \<^verbatim>\<open>/api/execute\<close>: the body changes the first cell
  with that id.
\<close>

fun update_first :: "(json \<Rightarrow> exn + json) \<Rightarrow> json list \<Rightarrow> string \<Rightarrow> exn + json list" where
  "update_first body [] cell_id = Inr []"
| "update_first body (c # cs) cell_id =
     (case getitem c ''id'' of
        Inl e \<Rightarrow> Inl e
      | Inr v \<Rightarrow>
         if v = JStr cell_id
         then (case body c of Inl e \<Rightarrow> Inl e | Inr c' \<Rightarrow> Inr (c' # cs))
         else (case update_first body cs cell_id of
                 Inl e \<Rightarrow> Inl e
               | Inr cs' \<Rightarrow> Inr (c # cs')))"

text \<open>
  The loop runs over \<^verbatim>\<open>current_notebook["cells"]\<close> and changes cells in place. When
  that value is a list the changed cells are the notebook's; the elements of a
  \<^verbatim>\<open>dict\<close> or a string are fresh strings, and the notebook keeps what it had.
\<close>

definition over_cells :: "json \<Rightarrow> (json list \<Rightarrow> exn + json list) \<Rightarrow> exn + json" where
  "over_cells current_notebook loop =
     and_then (getitem current_notebook ''cells'') (\<lambda>cells.
     and_then (iterate cells) (\<lambda>cs.
     and_then (loop cs) (\<lambda>cs'.
       case cells of
         JArr xs \<Rightarrow> setitem current_notebook ''cells'' (JArr cs')
       | _ \<Rightarrow> Inr current_notebook)))"

text \<open>The body of \<^verbatim>\<open>/api/cell/type\<close>.\<close>

definition retype :: "json \<Rightarrow> json \<Rightarrow> exn + json" where
  "retype new_type cell =
     and_then (setitem cell ''type'' new_type) (\<lambda>c1.
     and_then (setitem c1 ''outputs'' (JArr [])) (\<lambda>c2.
       setitem c2 ''execution_count'' JNull))"

text \<open>\<^verbatim>\<open>/api/cell/type\<close>.\<close>

definition post_cell_type :: "json \<Rightarrow> string \<Rightarrow> json \<Rightarrow> handled" where
  "post_cell_type current_notebook cell_id new_type =
     (if truthy current_notebook then
        (case over_cells current_notebook (\<lambda>cs. update_first (retype new_type) cs cell_id) of
           Inl e \<Rightarrow> (Inl e, current_notebook)
         | Inr nb \<Rightarrow> (Inr (Some (JObj [(''status'', JStr ''updated'')])), nb))
      else (Inr None, current_notebook))"

text \<open>
  \<^verbatim>\<open>cell["outputs"].append({"type": kind, "text": text})\<close>, guarded by
  \<^verbatim>\<open>if text:\<close>.
\<close>

definition append_output :: "string \<Rightarrow> json \<Rightarrow> json \<Rightarrow> exn + json" where
  "append_output kind txt cell =
     (if truthy txt then
        and_then (getitem cell ''outputs'') (\<lambda>outs.
          case outs of
            JArr xs \<Rightarrow>
              setitem cell ''outputs''
                (JArr (xs @ [JObj [(''type'', JStr kind), (''text'', txt)]]))
          | _ \<Rightarrow> Inl (AttributeError (type_name outs) ''append''))
      else Inr cell)"

text \<open>
  The lines that \<^verbatim>\<open>/api/execute\<close> and \<^verbatim>\<open>/api/run-all\<close> share: they write the
  kernel's \<open>result\<close> into the cell.
\<close>

definition record_result :: "json \<Rightarrow> json \<Rightarrow> exn + json" where
  "record_result result cell =
     and_then (get_or result ''execution_count'' JNull) (\<lambda>n.
     and_then (setitem cell ''execution_count'' n) (\<lambda>c1.
     and_then (setitem c1 ''outputs'' (JArr [])) (\<lambda>c2.
     and_then (get_or result ''stdout'' (JStr '''')) (\<lambda>stdout.
     and_then (get_or result ''stderr'' (JStr '''')) (\<lambda>stderr.
     and_then (get_or result ''result'' (JStr '''')) (\<lambda>res.
     and_then (append_output ''stdout'' stdout c2) (\<lambda>c3.
     and_then (append_output ''stderr'' stderr c3) (\<lambda>c4.
       append_output ''result'' res c4))))))))"

section \<open>Kernel Process Supervisor\<close>

text \<open>
  The child process is outside the program. What it does when the supervisor calls it
  is given to each operation as a \<open>world\<close>: the outcome of every call the operation can
  make on the child, an exception or a value.

  A \<open>line\<close> is what \<^verbatim>\<open>stdout.readline().strip()\<close> returned, with what
  \<^verbatim>\<open>json.loads\<close> makes of that text.
\<close>

record line =
  raw :: string
  decoded :: "exn + json"

text \<open>\<^verbatim>\<open>json.loads(text)\<close>; the empty text is never a JSON document.\<close>

definition json_loads :: "line \<Rightarrow> exn + json" where
  "json_loads l =
     (if raw l = [] then Inl (JSONDecodeError ''Expecting value: line 1 column 1 (char 0)'')
      else decoded l)"

text \<open>
  A child to be: what \<^verbatim>\<open>subprocess.Popen\<close> does (an exception, or the new handle,
  named by its pid) and what reading the new child's first line does.
\<close>

record child =
  popen :: "exn + nat"
  first_line :: "exn + line"

text \<open>
  \<open>running\<close>: \<^verbatim>\<open>self.process.poll() is None\<close>, asked of a handle.
  \<open>spawn\<close>: the first \<^verbatim>\<open>Popen\<close> of the operation.
  \<open>written\<close>: \<^verbatim>\<open>stdin.write(...)\<close> with \<^verbatim>\<open>stdin.flush()\<close>.
  \<open>reply\<close>: \<^verbatim>\<open>stdout.readline().strip()\<close> after the request.
  \<open>waited\<close>: \<^verbatim>\<open>process.wait(timeout=3)\<close>.
  \<open>killed\<close>: \<^verbatim>\<open>process.kill()\<close>.
  \<open>respawn\<close>: the second \<^verbatim>\<open>Popen\<close> of the operation.
\<close>

record world =
  running :: bool
  spawn :: child
  written :: "exn option"
  reply :: "exn + line"
  waited :: "exn option"
  killed :: "exn option"
  respawn :: child

text \<open>
  The calls that act on a child, in the order the supervisor made them: the record
  written to its stdin, the wait with its timeout in seconds, the kill.
\<close>

datatype event =
    Popen
  | Write nat json
  | Wait nat nat
  | Kill nat

text \<open>
  \<^verbatim>\<open>KernelManager\<close>: the handle (\<open>None\<close> for \<^verbatim>\<open>None\<close>), the counter, and the calls
  made so far. The lock is left out: one operation runs at a time.
\<close>

record kernel =
  process :: "nat option"
  execution_count :: int
  calls :: "event list"

definition init :: kernel where
  "init = \<lparr>process = None, execution_count = 0, calls = []\<rparr>"

definition called :: "event \<Rightarrow> kernel \<Rightarrow> kernel" where
  "called ev k = k\<lparr>calls := calls k @ [ev]\<rparr>"

text \<open>
  \<^verbatim>\<open>info = json.loads(ready); if info.get("status") != "kernel_ready": raise\<close>
\<close>

definition check_ready :: "line \<Rightarrow> exn option" where
  "check_ready l =
     (case json_loads l of
        Inl e \<Rightarrow> Some e
      | Inr info \<Rightarrow>
         (case get_or info ''status'' JNull of
            Inl e \<Rightarrow> Some e
          | Inr st \<Rightarrow>
             if st \<noteq> JStr ''kernel_ready''
             then Some (RuntimeError (''Kernel failed to start: '' @ raw l))
             else None))"

text \<open>
  \<^verbatim>\<open>KernelManager.start\<close>. The result is the exception it raised, if any. The new
  handle is stored before the first line is read.
\<close>

definition start :: "kernel \<Rightarrow> bool \<Rightarrow> child \<Rightarrow> exn option \<times> kernel" where
  "start k alive ch =
     (if process k \<noteq> None \<and> alive then (None, k)
      else
        (case popen ch of
           Inl e \<Rightarrow> (Some e, called Popen k)
         | Inr pid \<Rightarrow>
            (case first_line ch of
               Inl e \<Rightarrow> (Some e, (called Popen k)\<lparr>process := Some pid\<rparr>)
             | Inr l \<Rightarrow> (check_ready l, (called Popen k)\<lparr>process := Some pid\<rparr>))))"






text \<open>The synthetic reply of the \<^verbatim>\<open>except\<close> branch of \<^verbatim>\<open>execute\<close>.\<close>

definition kernel_error :: "json \<Rightarrow> exn \<Rightarrow> json" where
  "kernel_error cell_id e = JObj
     [(''cell_id'', cell_id),
      (''status'', JStr ''error''),
      (''stdout'', JStr []),
      (''stderr'', JStr (''Kernel error: '' @ exn_str e)),
      (''result'', JStr []),
      (''execution_count'', JInt 0)]"

definition execute_request :: "json \<Rightarrow> json \<Rightarrow> json" where
  "execute_request cell_id code =
     JObj [(''action'', JStr ''execute''), (''cell_id'', cell_id), (''code'', code)]"

text \<open>
  The \<^verbatim>\<open>try\<close> block of \<^verbatim>\<open>execute\<close>: the request, the reply, its decoding. A
  missing handle fails on \<^verbatim>\<open>self.process.stdin\<close>.
\<close>

definition exchange :: "kernel \<Rightarrow> json \<Rightarrow> json \<Rightarrow> world \<Rightarrow> (exn + json) \<times> kernel" where
  "exchange k cell_id code w =
     (case process k of
        None \<Rightarrow> (Inl (AttributeError ''NoneType'' ''stdin''), k)
      | Some pid \<Rightarrow>
         (case written w of
            Some e \<Rightarrow> (Inl e, called (Write pid (execute_request cell_id code)) k)
          | None \<Rightarrow>
             (case reply w of
                Inl e \<Rightarrow> (Inl e, called (Write pid (execute_request cell_id code)) k)
              | Inr l \<Rightarrow>
                 (if raw l = []
                  then Inl (RuntimeError ''No response from kernel (process may have crashed)'')
                  else json_loads l,
                  called (Write pid (execute_request cell_id code)) k))))"

text \<open>
  The \<^verbatim>\<open>except\<close> branch of \<^verbatim>\<open>execute\<close>: a \<^verbatim>\<open>start()\<close> whose own exception is
  dropped, and the synthetic reply.
\<close>

definition recover :: "kernel \<Rightarrow> json \<Rightarrow> exn \<Rightarrow> world \<Rightarrow> (exn + json) \<times> kernel" where
  "recover k cell_id e w =
     (Inr (kernel_error cell_id e), snd (start (k\<lparr>process := None\<rparr>) False (respawn w)))"

definition attempt :: "kernel \<Rightarrow> json \<Rightarrow> json \<Rightarrow> world \<Rightarrow> (exn + json) \<times> kernel" where
  "attempt k cell_id code w =
     (case exchange k cell_id code w of
        (Inr response, k1) \<Rightarrow> (Inr response, k1)
      | (Inl e, k1) \<Rightarrow> recover k1 cell_id e w)"

text \<open>
  \<^verbatim>\<open>KernelManager.execute\<close>. \<open>Inl\<close> is an exception that leaves the method,
  \<open>Inr\<close> the value it returns. The \<^verbatim>\<open>start()\<close> of a dead kernel stands before the
  \<^verbatim>\<open>try\<close>.
\<close>

definition execute :: "kernel \<Rightarrow> json \<Rightarrow> json \<Rightarrow> world \<Rightarrow> (exn + json) \<times> kernel" where
  "execute k cell_id code w =
     (if process k = None \<or> \<not> running w then
        (case start (k\<lparr>process := None\<rparr>) False (spawn w) of
           (Some e, k1) \<Rightarrow> (Inl e, k1)
         | (None, k1) \<Rightarrow> attempt k1 cell_id code w)
      else attempt k cell_id code w)"





section \<open>Execution Orchestrator\<close>

text \<open>
  A handler that runs code takes the globals \<^verbatim>\<open>current_notebook\<close> and
  \<^verbatim>\<open>kernel\<close> and returns what it did with both as it leaves them.
\<close>

type_synonym executed = "(exn + json option) \<times> json \<times> kernel"

text \<open>The body of the loop of \<^verbatim>\<open>/api/execute\<close>.\<close>

definition store_run :: "string \<Rightarrow> json \<Rightarrow> json \<Rightarrow> exn + json" where
  "store_run code result cell =
     and_then (setitem cell ''source'' (JStr code)) (record_result result)"

text \<open>
  \<^verbatim>\<open>/api/execute\<close>. The request carries the cell id and the code, both strings;
  \<open>elapsed\<close> is the number \<^verbatim>\<open>round(elapsed, 4)\<close> read off the clock.
\<close>

definition post_execute ::
  "json \<Rightarrow> kernel \<Rightarrow> string \<Rightarrow> string \<Rightarrow> json \<Rightarrow> world \<Rightarrow> executed" where
  "post_execute current_notebook k cell_id code elapsed w =
     (case execute k (JStr cell_id) (JStr code) w of
        (Inl e, k1) \<Rightarrow> (Inl e, current_notebook, k1)
      | (Inr response, k1) \<Rightarrow>
         (case setitem response ''exec_time'' elapsed of
            Inl e \<Rightarrow> (Inl e, current_notebook, k1)
          | Inr result \<Rightarrow>
             if truthy current_notebook then
               (case over_cells current_notebook
                       (\<lambda>cs. update_first (store_run code result) cs cell_id) of
                  Inl e \<Rightarrow> (Inl e, current_notebook, k1)
                | Inr nb \<Rightarrow> (Inr (Some result), nb, k1))
             else (Inr (Some result), current_notebook, k1)))"

text \<open>
  \<^verbatim>\<open>cell["type"] == "code" and cell["source"].strip()\<close>, the test of
  \<^verbatim>\<open>/api/run-all\<close>; only a string has \<^verbatim>\<open>strip\<close>.
\<close>

definition wants_run :: "json \<Rightarrow> exn + bool" where
  "wants_run cell =
     and_then (getitem cell ''type'') (\<lambda>t.
       if t = JStr ''code'' then
         and_then (getitem cell ''source'') (\<lambda>s.
           case s of
             JStr txt \<Rightarrow> Inr (strip txt \<noteq> [])
           | _ \<Rightarrow> Inl (AttributeError (type_name s) ''strip''))
       else Inr False)"

text \<open>
  The loop of \<^verbatim>\<open>/api/run-all\<close> over the cells. \<open>ws n\<close> is the world that the
  \<open>n\<close>-th call of \<^verbatim>\<open>kernel.execute\<close> meets. The result is the exception that ended
  the loop or the list \<^verbatim>\<open>results\<close>, the cells as the loop left them, and the kernel.
\<close>

fun run_cells ::
  "json list \<Rightarrow> kernel \<Rightarrow> (nat \<Rightarrow> world) \<Rightarrow> nat \<Rightarrow> (exn + json list) \<times> json list \<times> kernel" where
  "run_cells [] k ws n = (Inr [], [], k)"
| "run_cells (cell # cells) k ws n =
     (case wants_run cell of
        Inl e \<Rightarrow> (Inl e, cell # cells, k)
      | Inr False \<Rightarrow>
         (case run_cells cells k ws n of
            (out, cells', k') \<Rightarrow> (out, cell # cells', k'))
      | Inr True \<Rightarrow>
         (case getitem cell ''id'' of
            Inl e \<Rightarrow> (Inl e, cell # cells, k)
          | Inr cell_id \<Rightarrow>
             (case getitem cell ''source'' of
                Inl e \<Rightarrow> (Inl e, cell # cells, k)
              | Inr code \<Rightarrow>
                 (case execute k cell_id code (ws n) of
                    (Inl e, k1) \<Rightarrow> (Inl e, cell # cells, k1)
                  | (Inr result, k1) \<Rightarrow>
                     (case record_result result cell of
                        Inl e \<Rightarrow> (Inl e, cell # cells, k1)
                      | Inr cell' \<Rightarrow>
                         (case run_cells cells k1 ws (Suc n) of
                            (out, cells', k') \<Rightarrow>
                              (and_then out (\<lambda>results. Inr (result # results)),
                               cell' # cells', k')))))))"

text \<open>
  \<^verbatim>\<open>/api/run-all\<close>. The cells that the loop changed stay changed when an exception
  ends it.
\<close>

definition post_run_all :: "json \<Rightarrow> kernel \<Rightarrow> (nat \<Rightarrow> world) \<Rightarrow> executed" where
  "post_run_all current_notebook k ws =
     (if truthy current_notebook then
        (case getitem current_notebook ''cells'' of
           Inl e \<Rightarrow> (Inl e, current_notebook, k)
         | Inr cells \<Rightarrow>
            (case iterate cells of
               Inl e \<Rightarrow> (Inl e, current_notebook, k)
             | Inr cs \<Rightarrow>
                (case run_cells cs k ws 0 of
                   (out, cs', k') \<Rightarrow>
                     (and_then out (\<lambda>results.
                        Inr (Some (JObj [(''status'', JStr ''ok''),
                                         (''results'', JArr results)]))),
                      (case cells of
                         JArr xs \<Rightarrow>
                           (case setitem current_notebook ''cells'' (JArr cs') of
                              Inl e \<Rightarrow> current_notebook
                            | Inr nb \<Rightarrow> nb)
                       | _ \<Rightarrow> current_notebook),
                      k'))))
      else (Inr None, current_notebook, k))"

section \<open>Persistence\<close>

text \<open>
  A file is what \<^verbatim>\<open>json.load\<close> makes of it: the exception that opening or decoding
  it raises, or the document its text denotes. \<^verbatim>\<open>json.dump\<close> writes a text that
  denotes the value it was given. \<open>None\<close> is a path where no file is.
\<close>

type_synonym disk = "string \<Rightarrow> (exn + json) option"

text \<open>\<^verbatim>\<open>load_notebook(filepath)\<close>.\<close>

definition load_notebook :: "disk \<Rightarrow> string \<Rightarrow> exn + json" where
  "load_notebook d filepath =
     (case d filepath of
        None \<Rightarrow> Inl (OSError (''[Errno 2] No such file or directory: '' @ quoted filepath))
      | Some content \<Rightarrow> content)"

text \<open>
  \<^verbatim>\<open>save_notebook(filepath, notebook)\<close>. \<open>now\<close> is the text of
  \<^verbatim>\<open>datetime.utcnow().isoformat()\<close>, \<open>opened\<close> the exception that
  \<^verbatim>\<open>open(filepath, "w")\<close> raises, if any. The result is the exception raised, if any,
  the disk, and the notebook, which the stamp has changed in place.
\<close>

definition save_notebook ::
  "disk \<Rightarrow> string \<Rightarrow> json \<Rightarrow> string \<Rightarrow> exn option \<Rightarrow> exn option \<times> disk \<times> json" where
  "save_notebook d filepath notebook now opened =
     (case getitem notebook ''metadata'' of
        Inl e \<Rightarrow> (Some e, d, notebook)
      | Inr metadata \<Rightarrow>
         (case setitem metadata ''modified'' (JStr (now @ ''Z'')) of
            Inl e \<Rightarrow> (Some e, d, notebook)
          | Inr stamped \<Rightarrow>
             (case setitem notebook ''metadata'' stamped of
                Inl e \<Rightarrow> (Some e, d, notebook)
              | Inr notebook' \<Rightarrow>
                 (case opened of
                    Some e \<Rightarrow> (Some e, d, notebook')
                  | None \<Rightarrow> (None, d(filepath \<mapsto> Inr notebook'), notebook')))))"

text \<open>
  \<^verbatim>\<open>/api/notebook/load\<close>, on the globals \<^verbatim>\<open>current_notebook\<close> and
  \<^verbatim>\<open>current_notebook_path\<close>. The result is the exception raised or the body sent.
\<close>

definition post_notebook_load ::
  "json \<Rightarrow> string option \<Rightarrow> disk \<Rightarrow> string \<Rightarrow> (exn + json) \<times> json \<times> string option" where
  "post_notebook_load current_notebook current_notebook_path d filepath =
     (if filepath \<noteq> [] \<and> d filepath \<noteq> None then
        (case load_notebook d filepath of
           Inl e \<Rightarrow> (Inl e, current_notebook, current_notebook_path)
         | Inr nb \<Rightarrow> (Inr nb, nb, Some filepath))
      else
        (Inr (JObj [(''status'', JStr ''error''), (''message'', JStr ''File not found'')]),
         current_notebook, current_notebook_path))"


section \<open>Documents the handlers accept\<close>

text \<open>A cell that answers \<^verbatim>\<open>cell["id"]\<close>: a \<^verbatim>\<open>dict\<close> with that key.\<close>

fun has_id :: "json \<Rightarrow> bool" where
  "has_id (JObj kvs) = (map_of kvs ''id'' \<noteq> None)"
| "has_id v = False"

section \<open>The outputs of a reply\<close>

text \<open>
  The specification's words for a cell's outputs: rebuilt from stdout, stderr and
  result, each appended only if non-empty, in that fixed order.
\<close>

definition spec_outputs :: "json \<Rightarrow> json \<Rightarrow> json \<Rightarrow> json list" where
  "spec_outputs out err res =
     map (\<lambda>(kind, txt). JObj [(''type'', JStr kind), (''text'', txt)])
       (filter (\<lambda>(kind, txt). truthy txt)
          [(''stdout'', out), (''stderr'', err), (''result'', res)])"

text \<open>The same for the three fields of a reply, read with the handlers' defaults.\<close>

definition outputs_of :: "(string \<times> json) list \<Rightarrow> json list" where
  "outputs_of r =
     spec_outputs (dict_get r ''stdout'' (JStr [])) (dict_get r ''stderr'' (JStr []))
       (dict_get r ''result'' (JStr []))"

section \<open>A child that comes up\<close>

text \<open>
  The handle of a child that can be started and whose first line is not empty and
  decodes to a record with status \<open>kernel_ready\<close>; \<open>None\<close> for every other child.
\<close>

definition comes_up :: "child \<Rightarrow> nat option" where
  "comes_up ch =
     (case popen ch of
        Inl e \<Rightarrow> None
      | Inr pid \<Rightarrow>
         (case first_line ch of
            Inl e \<Rightarrow> None
          | Inr l \<Rightarrow>
             if raw l \<noteq> [] \<and>
                (case decoded l of
                   Inr (JObj kvs) \<Rightarrow> map_of kvs ''status'' = Some (JStr ''kernel_ready'')
                 | _ \<Rightarrow> False)
             then Some pid else None))"

section \<open>Cells that run\<close>

text \<open>
  A cell as the document model has it, as far as \<^verbatim>\<open>/api/run-all\<close> reads it: a
  \<^verbatim>\<open>dict\<close> with an id, a type and a source that is a string.
\<close>

fun is_cell :: "json \<Rightarrow> bool" where
  "is_cell (JObj kvs) =
     (map_of kvs ''id'' \<noteq> None \<and> map_of kvs ''type'' \<noteq> None \<and>
      (case map_of kvs ''source'' of Some (JStr s) \<Rightarrow> True | _ \<Rightarrow> False))"
| "is_cell v = False"

text \<open>
  The specification's words for the cells that run: the type is \<open>code\<close> and the source
  is not empty once whitespace is stripped.
\<close>

definition runnable :: "json \<Rightarrow> bool" where
  "runnable cell =
     (getitem cell ''type'' = Inr (JStr ''code'') \<and>
      (case getitem cell ''source'' of Inr (JStr s) \<Rightarrow> strip s \<noteq> [] | _ \<Rightarrow> False))"

text \<open>
  A world whose child keeps to the protocol in this: a reply that decodes is a record.
\<close>

definition answers_records :: "world \<Rightarrow> bool" where
  "answers_records w =
     (case reply w of
        Inl e \<Rightarrow> True
      | Inr l \<Rightarrow>
         (case decoded l of
            Inl e \<Rightarrow> True
          | Inr (JObj kvs) \<Rightarrow> True
          | Inr v \<Rightarrow> False))"

section \<open>Example inputs\<close>

text \<open>The line a healthy child prints first, and a child that starts well.\<close>

definition ready_line :: line where
  "ready_line =
     \<lparr>raw = ''{\"status\": \"kernel_ready\", \"version\": \"2.0\"}'',
      decoded = Inr (JObj [(''status'', JStr ''kernel_ready''), (''version'', JStr ''2.0'')])\<rparr>"

definition healthy_child :: "nat \<Rightarrow> child" where
  "healthy_child pid = \<lparr>popen = Inr pid, first_line = Inr ready_line\<rparr>"

text \<open>A child that cannot be started: the binary is missing.\<close>

definition missing_child :: child where
  "missing_child =
     \<lparr>popen = Inl (OSError ''[Errno 2] No such file or directory: scriptit''),
      first_line = Inr ready_line\<rparr>"


text \<open>The empty line that a crashed child leaves on its pipe.\<close>

definition blank_line :: line where
  "blank_line =
     \<lparr>raw = [],
      decoded = Inl (JSONDecodeError ''Expecting value: line 1 column 1 (char 0)'')\<rparr>"

text \<open>
  A reply line that decodes to the given record. Its text is abbreviated: the code that
  reads a reply only asks whether the text is empty.
\<close>

definition reply_line :: "(string \<times> json) list \<Rightarrow> line" where
  "reply_line r = \<lparr>raw = ''{...}'', decoded = Inr (JObj r)\<rparr>"

text \<open>
  A world in which the child runs, every call on it succeeds, and it answers with the
  given line.
\<close>

definition calm_world :: "line \<Rightarrow> world" where
  "calm_world l =
     \<lparr>running = True, spawn = healthy_child 7, written = None, reply = Inr l,
      waited = None, killed = None, respawn = healthy_child 8\<rparr>"

text \<open>A supervisor that holds the handle of child 3 and has counted five runs.\<close>

definition busy_kernel :: kernel where
  "busy_kernel = \<lparr>process = Some 3, execution_count = 5, calls = []\<rparr>"

text \<open>A code cell that has run before: it holds an output and the count 3.\<close>

definition used_cell :: "string \<Rightarrow> string \<Rightarrow> (string \<times> json) list" where
  "used_cell cell_id code =
     [(''id'', JStr cell_id),
      (''type'', JStr ''code''),
      (''source'', JStr code),
      (''outputs'', JArr [JObj [(''type'', JStr ''stdout''), (''text'', JStr ''old'')]]),
      (''execution_count'', JInt 3),
      (''metadata'', JObj [])]"

section \<open>Reading and writing keys\<close>

lemma getitem_has_id: "has_id c \<Longrightarrow> \<exists>i. getitem c ''id'' = Inr i"
  by (cases c) auto

lemma getitem_setitem_same:
  "setitem nb k x = Inr nb' \<Longrightarrow> getitem nb' k = Inr x"
  by (cases nb) (auto simp: update_conv')

lemma getitem_setitem_other:
  "setitem nb k x = Inr nb' \<Longrightarrow> k' \<noteq> k \<Longrightarrow> getitem nb' k' = getitem nb k'"
  by (cases nb) (auto simp: update_conv')

lemma setitem_total:
  "getitem nb k = Inr y \<Longrightarrow> \<exists>nb'. setitem nb k x = Inr nb'"
  by (cases nb) auto

lemma getitem_truthy: "getitem nb k = Inr y \<Longrightarrow> truthy nb"
  by (cases nb) auto

section \<open>Deleting a cell\<close>

lemma cells_without_total:
  "list_all has_id cs \<Longrightarrow> \<exists>kept. cells_without cs cell_id = Inr kept"
proof (induction cs)
  case Nil
  show ?case by simp
next
  case (Cons c cs)
  then obtain i kept where "getitem c ''id'' = Inr i" "cells_without cs cell_id = Inr kept"
    using getitem_has_id by fastforce
  then show ?case by simp
qed

lemma cells_without_filter:
  "cells_without cs cell_id = Inr kept \<Longrightarrow>
   kept = filter (\<lambda>c. getitem c ''id'' \<noteq> Inr (JStr cell_id)) cs"
  by (induction cs arbitrary: kept) (auto split: sum.splits if_splits)

text \<open>
  C3. \<^verbatim>\<open>/api/cell/delete\<close> never leaves a notebook without cells. On a notebook whose
  cells all carry an id, the handler answers \<open>deleted\<close> and leaves the cells whose id
  differs from the requested one, in their order; when none is left, and so when the
  only cell is deleted, it leaves exactly one cell, the fresh code cell with empty
  source, no outputs and no execution count. No other key of the notebook changes.
\<close>

theorem delete_cell_keeps_a_cell:
  assumes cells: "getitem nb ''cells'' = Inr (JArr cs)" and ids: "list_all has_id cs"
  shows "\<exists>nb' kept.
           post_cell_delete nb cell_id uuid =
             (Inr (Some (JObj [(''status'', JStr ''deleted'')])), nb')
         \<and> getitem nb' ''cells'' = Inr (JArr kept)
         \<and> kept \<noteq> []
         \<and> kept = (let rest = filter (\<lambda>c. getitem c ''id'' \<noteq> Inr (JStr cell_id)) cs
                   in if rest = [] then [new_cell uuid (JStr ''code'')] else rest)
         \<and> (\<forall>c. cs = [c] \<and> getitem c ''id'' = Inr (JStr cell_id) \<longrightarrow>
                kept = [JObj [(''id'', JStr uuid), (''type'', JStr ''code''),
                              (''source'', JStr []), (''outputs'', JArr []),
                              (''execution_count'', JNull), (''metadata'', JObj [])]])
         \<and> (\<forall>k. k \<noteq> ''cells'' \<longrightarrow> getitem nb' k = getitem nb k)"
proof -
  obtain rest where rest: "cells_without cs cell_id = Inr rest"
    using cells_without_total [OF ids] by blast
  have rest_eq: "rest = filter (\<lambda>c. getitem c ''id'' \<noteq> Inr (JStr cell_id)) cs"
    using cells_without_filter [OF rest] .
  define kept where "kept = (if rest = [] then rest @ [new_cell uuid (JStr ''code'')] else rest)"
  obtain nb' where nb': "setitem nb ''cells'' (JArr kept) = Inr nb'"
    using setitem_total [OF cells] by blast
  have run: "post_cell_delete nb cell_id uuid =
      (Inr (Some (JObj [(''status'', JStr ''deleted'')])), nb')"
    using cells rest nb' getitem_truthy [OF cells]
    by (simp add: post_cell_delete_def kept_def)
  have "kept \<noteq> []" by (simp add: kept_def)
  moreover have "getitem nb' ''cells'' = Inr (JArr kept)"
    using getitem_setitem_same [OF nb'] .
  moreover have "\<forall>k. k \<noteq> ''cells'' \<longrightarrow> getitem nb' k = getitem nb k"
    using getitem_setitem_other [OF nb'] by blast
  moreover have "kept = (let rest = filter (\<lambda>c. getitem c ''id'' \<noteq> Inr (JStr cell_id)) cs
                   in if rest = [] then [new_cell uuid (JStr ''code'')] else rest)"
    by (simp add: kept_def rest_eq Let_def)
  moreover have "\<forall>c. cs = [c] \<and> getitem c ''id'' = Inr (JStr cell_id) \<longrightarrow>
                kept = [JObj [(''id'', JStr uuid), (''type'', JStr ''code''),
                              (''source'', JStr []), (''outputs'', JArr []),
                              (''execution_count'', JNull), (''metadata'', JObj [])]]"
    by (auto simp: kept_def rest_eq new_cell_def)
  ultimately show ?thesis using run by blast
qed

theorem delete_cell_keeps_a_cell_witness:
  "getitem (JObj [(''nsit_format'', JStr ''1.0''),
                  (''cells'', JArr [new_cell ''a'' (JStr ''code'')])]) ''cells''
     = Inr (JArr [new_cell ''a'' (JStr ''code'')])
   \<and> list_all has_id [new_cell ''a'' (JStr ''code'')]
   \<and> post_cell_delete
        (JObj [(''nsit_format'', JStr ''1.0''),
               (''cells'', JArr [new_cell ''a'' (JStr ''code'')])]) ''a'' ''b''
     = (Inr (Some (JObj [(''status'', JStr ''deleted'')])),
        JObj [(''nsit_format'', JStr ''1.0''),
              (''cells'', JArr [new_cell ''b'' (JStr ''code'')])])"
proof -
  have cells: "getitem (JObj [(''nsit_format'', JStr ''1.0''),
                  (''cells'', JArr [new_cell ''a'' (JStr ''code'')])]) ''cells''
     = Inr (JArr [new_cell ''a'' (JStr ''code'')])"
    by simp
  have ids: "list_all has_id [new_cell ''a'' (JStr ''code'')]"
    by (simp add: new_cell_def)
  show ?thesis
    using cells ids delete_cell_keeps_a_cell [OF cells ids, of "''a''" "''b''"]
    by (simp add: post_cell_delete_def new_cell_def)
qed


section \<open>Mutators on an id that no cell has\<close>

lemma setitem_same_value: "getitem nb k = Inr v \<Longrightarrow> setitem nb k v = Inr nb"
  by (cases nb) (auto simp: update_triv split: option.splits)

lemma cells_without_absent:
  "list_all has_id cs \<Longrightarrow> \<forall>c\<in>set cs. getitem c ''id'' \<noteq> Inr (JStr cell_id) \<Longrightarrow>
   cells_without cs cell_id = Inr cs"
proof (induction cs)
  case Nil
  show ?case by simp
next
  case (Cons c cs)
  from Cons.prems obtain i where i: "getitem c ''id'' = Inr i"
    using getitem_has_id by fastforce
  with Cons show ?case by auto
qed

lemma find_cell_absent:
  "list_all has_id cs \<Longrightarrow> \<forall>c\<in>set cs. getitem c ''id'' \<noteq> Inr (JStr cell_id) \<Longrightarrow>
   find_cell cs cell_id i = Inr None"
proof (induction cs arbitrary: i)
  case Nil
  show ?case by simp
next
  case (Cons c cs)
  from Cons.prems obtain v where v: "getitem c ''id'' = Inr v"
    using getitem_has_id by fastforce
  with Cons show ?case by auto
qed

lemma update_first_absent:
  "list_all has_id cs \<Longrightarrow> \<forall>c\<in>set cs. getitem c ''id'' \<noteq> Inr (JStr cell_id) \<Longrightarrow>
   update_first body cs cell_id = Inr cs"
proof (induction cs)
  case Nil
  show ?case by simp
next
  case (Cons c cs)
  from Cons.prems obtain v where v: "getitem c ''id'' = Inr v"
    using getitem_has_id by fastforce
  with Cons show ?case by auto
qed

text \<open>
  C10. On a notebook with at least one cell, all cells carrying an id, and a requested
  id that none of them has, \<^verbatim>\<open>/api/cell/delete\<close>, \<^verbatim>\<open>/api/cell/move\<close> and
  \<^verbatim>\<open>/api/cell/type\<close> leave the notebook as it was and answer with their usual
  status, \<open>deleted\<close>, \<open>moved\<close> and \<open>updated\<close>; none of them raises or reports a
  missing cell.
\<close>

theorem absent_id_changes_nothing:
  assumes cells: "getitem nb ''cells'' = Inr (JArr cs)"
    and some: "cs \<noteq> []"
    and ids: "list_all has_id cs"
    and absent: "\<forall>c\<in>set cs. getitem c ''id'' \<noteq> Inr (JStr cell_id)"
  shows "post_cell_delete nb cell_id uuid =
           (Inr (Some (JObj [(''status'', JStr ''deleted'')])), nb)
       \<and> post_cell_move nb cell_id direction =
           (Inr (Some (JObj [(''status'', JStr ''moved'')])), nb)
       \<and> post_cell_type nb cell_id new_type =
           (Inr (Some (JObj [(''status'', JStr ''updated'')])), nb)"
proof -
  have t: "truthy nb" using getitem_truthy [OF cells] .
  have same: "setitem nb ''cells'' (JArr cs) = Inr nb"
    using setitem_same_value [OF cells] .
  have "post_cell_delete nb cell_id uuid =
           (Inr (Some (JObj [(''status'', JStr ''deleted'')])), nb)"
    using t cells some same cells_without_absent [OF ids absent]
    by (simp add: post_cell_delete_def)
  moreover have "post_cell_move nb cell_id direction =
           (Inr (Some (JObj [(''status'', JStr ''moved'')])), nb)"
    using t cells find_cell_absent [OF ids absent]
    by (simp add: post_cell_move_def)
  moreover have "post_cell_type nb cell_id new_type =
           (Inr (Some (JObj [(''status'', JStr ''updated'')])), nb)"
    using t cells same update_first_absent [OF ids absent]
    by (simp add: post_cell_type_def over_cells_def and_then_def)
  ultimately show ?thesis by blast
qed

theorem absent_id_changes_nothing_witness:
  "post_cell_delete
     (JObj [(''nsit_format'', JStr ''1.0''),
            (''cells'', JArr [new_cell ''a'' (JStr ''code''), new_cell ''b'' (JStr ''markdown'')])])
     ''zz'' ''u''
   = (Inr (Some (JObj [(''status'', JStr ''deleted'')])),
      JObj [(''nsit_format'', JStr ''1.0''),
            (''cells'', JArr [new_cell ''a'' (JStr ''code''), new_cell ''b'' (JStr ''markdown'')])])
   \<and> post_cell_move
     (JObj [(''nsit_format'', JStr ''1.0''),
            (''cells'', JArr [new_cell ''a'' (JStr ''code''), new_cell ''b'' (JStr ''markdown'')])])
     ''zz'' ''down''
   = (Inr (Some (JObj [(''status'', JStr ''moved'')])),
      JObj [(''nsit_format'', JStr ''1.0''),
            (''cells'', JArr [new_cell ''a'' (JStr ''code''), new_cell ''b'' (JStr ''markdown'')])])
   \<and> post_cell_type
     (JObj [(''nsit_format'', JStr ''1.0''),
            (''cells'', JArr [new_cell ''a'' (JStr ''code''), new_cell ''b'' (JStr ''markdown'')])])
     ''zz'' (JStr ''code'')
   = (Inr (Some (JObj [(''status'', JStr ''updated'')])),
      JObj [(''nsit_format'', JStr ''1.0''),
            (''cells'', JArr [new_cell ''a'' (JStr ''code''), new_cell ''b'' (JStr ''markdown'')])])"
proof (rule absent_id_changes_nothing)
  show "getitem (JObj [(''nsit_format'', JStr ''1.0''),
            (''cells'', JArr [new_cell ''a'' (JStr ''code''), new_cell ''b'' (JStr ''markdown'')])])
          ''cells''
        = Inr (JArr [new_cell ''a'' (JStr ''code''), new_cell ''b'' (JStr ''markdown'')])"
    by simp
  show "[new_cell ''a'' (JStr ''code''), new_cell ''b'' (JStr ''markdown'')] \<noteq> []"
    by simp
  show "list_all has_id [new_cell ''a'' (JStr ''code''), new_cell ''b'' (JStr ''markdown'')]"
    by (simp add: new_cell_def)
  show "\<forall>c\<in>set [new_cell ''a'' (JStr ''code''), new_cell ''b'' (JStr ''markdown'')].
          getitem c ''id'' \<noteq> Inr (JStr ''zz'')"
    by (simp add: new_cell_def)
qed


section \<open>Writing a reply into a cell\<close>

lemma dict_get_update_other:
  "k' \<noteq> k \<Longrightarrow> dict_get (AList.update k x r) k' d = dict_get r k' d"
  by (simp add: dict_get_def update_conv')

lemma outputs_of_exec_time: "outputs_of (AList.update ''exec_time'' x r) = outputs_of r"
  by (simp add: outputs_of_def dict_get_update_other)

lemma record_result_dict:
  "record_result (JObj r) (JObj c) =
     Inr (JObj (AList.update ''outputs'' (JArr (outputs_of r))
                 (AList.update ''execution_count'' (dict_get r ''execution_count'' JNull) c)))"
  by (simp add: record_result_def and_then_def append_output_def update_conv'
        spec_outputs_def outputs_of_def)

lemma store_run_dict:
  "store_run code (JObj r) (JObj c) =
     Inr (JObj (AList.update ''outputs'' (JArr (outputs_of r))
                 (AList.update ''execution_count'' (dict_get r ''execution_count'' JNull)
                   (AList.update ''source'' (JStr code) c))))"
  by (simp add: store_run_def and_then_def record_result_dict)

lemma update_first_found:
  "list_all has_id pre \<Longrightarrow> \<forall>p\<in>set pre. getitem p ''id'' \<noteq> Inr (JStr cell_id) \<Longrightarrow>
   getitem c ''id'' = Inr (JStr cell_id) \<Longrightarrow> body c = Inr c' \<Longrightarrow>
   update_first body (pre @ c # post) cell_id = Inr (pre @ c' # post)"
proof (induction pre)
  case Nil
  then show ?case by simp
next
  case (Cons p pre)
  from Cons.prems obtain v where v: "getitem p ''id'' = Inr v"
    using getitem_has_id by fastforce
  with Cons show ?case by auto
qed

text \<open>
  What \<^verbatim>\<open>/api/execute\<close> does when the kernel returned the record \<open>r\<close> and the
  first cell with the requested id is \<open>c\<close>.
\<close>

lemma post_execute_found:
  assumes cells: "getitem nb ''cells'' = Inr (JArr (pre @ JObj c # post))"
    and ids: "list_all has_id pre"
    and others: "\<forall>p\<in>set pre. getitem p ''id'' \<noteq> Inr (JStr cell_id)"
    and mine: "map_of c ''id'' = Some (JStr cell_id)"
    and run: "execute k (JStr cell_id) (JStr code) w = (Inr (JObj r), k1)"
    and nb': "setitem nb ''cells''
               (JArr (pre @ JObj (AList.update ''outputs'' (JArr (outputs_of r))
                        (AList.update ''execution_count'' (dict_get r ''execution_count'' JNull)
                          (AList.update ''source'' (JStr code) c))) # post)) = Inr nb'"
  shows "post_execute nb k cell_id code elapsed w =
           (Inr (Some (JObj (AList.update ''exec_time'' elapsed r))), nb', k1)"
proof -
  have t: "truthy nb" using getitem_truthy [OF cells] .
  have c: "getitem (JObj c) ''id'' = Inr (JStr cell_id)" using mine by simp
  have upd: "update_first (store_run code (JObj (AList.update ''exec_time'' elapsed r)))
               (pre @ JObj c # post) cell_id =
             Inr (pre @ JObj (AList.update ''outputs'' (JArr (outputs_of r))
                        (AList.update ''execution_count'' (dict_get r ''execution_count'' JNull)
                          (AList.update ''source'' (JStr code) c))) # post)"
    by (rule update_first_found [OF ids others c])
       (simp add: store_run_dict outputs_of_exec_time dict_get_update_other)
  show ?thesis
    using t cells run upd nb'
    by (simp add: post_execute_def over_cells_def and_then_def)
qed

text \<open>
  C5. When \<^verbatim>\<open>/api/execute\<close> writes the kernel's reply \<open>r\<close> into the cell with the
  requested id, the cell's outputs become the list built from the reply alone: an entry
  for stdout, one for stderr and one for result, in that order, each present exactly
  when its text is non-empty (truthy). What the cell held as outputs before plays no
  part. The lines of \<^verbatim>\<open>/api/run-all\<close> that write a reply into a cell give the same
  list.
\<close>

theorem execution_rebuilds_outputs:
  assumes cells: "getitem nb ''cells'' = Inr (JArr (pre @ JObj c # post))"
    and ids: "list_all has_id pre"
    and others: "\<forall>p\<in>set pre. getitem p ''id'' \<noteq> Inr (JStr cell_id)"
    and mine: "map_of c ''id'' = Some (JStr cell_id)"
    and run: "execute k (JStr cell_id) (JStr code) w = (Inr (JObj r), k1)"
  shows "\<exists>nb' c' c''.
           post_execute nb k cell_id code elapsed w =
             (Inr (Some (JObj (AList.update ''exec_time'' elapsed r))), nb', k1)
         \<and> getitem nb' ''cells'' = Inr (JArr (pre @ JObj c' # post))
         \<and> map_of c' ''outputs'' =
             Some (JArr (spec_outputs (dict_get r ''stdout'' (JStr []))
                           (dict_get r ''stderr'' (JStr [])) (dict_get r ''result'' (JStr []))))
         \<and> record_result (JObj r) (JObj c) = Inr (JObj c'')
         \<and> map_of c'' ''outputs'' =
             Some (JArr (spec_outputs (dict_get r ''stdout'' (JStr []))
                           (dict_get r ''stderr'' (JStr [])) (dict_get r ''result'' (JStr []))))"
proof -
  define c' where "c' = AList.update ''outputs'' (JArr (outputs_of r))
                        (AList.update ''execution_count'' (dict_get r ''execution_count'' JNull)
                          (AList.update ''source'' (JStr code) c))"
  define c'' where "c'' = AList.update ''outputs'' (JArr (outputs_of r))
                        (AList.update ''execution_count'' (dict_get r ''execution_count'' JNull) c)"
  obtain nb' where nb': "setitem nb ''cells'' (JArr (pre @ JObj c' # post)) = Inr nb'"
    using setitem_total [OF cells] by blast
  have "post_execute nb k cell_id code elapsed w =
          (Inr (Some (JObj (AList.update ''exec_time'' elapsed r))), nb', k1)"
    using post_execute_found [OF cells ids others mine run] nb' by (simp add: c'_def)
  moreover have "getitem nb' ''cells'' = Inr (JArr (pre @ JObj c' # post))"
    using getitem_setitem_same [OF nb'] .
  moreover have "map_of c' ''outputs'' = Some (JArr (outputs_of r))"
    by (simp add: c'_def update_conv')
  moreover have "record_result (JObj r) (JObj c) = Inr (JObj c'')"
    by (simp add: c''_def record_result_dict)
  moreover have "map_of c'' ''outputs'' = Some (JArr (outputs_of r))"
    by (simp add: c''_def update_conv')
  ultimately show ?thesis unfolding outputs_of_def by blast
qed

theorem execution_rebuilds_outputs_witness:
  "post_execute
     (JObj [(''cells'', JArr [JObj (used_cell ''a'' ''x'')])])
     busy_kernel ''a'' ''print(42).'' (JInt 0)
     (calm_world (reply_line
        [(''cell_id'', JStr ''a''), (''status'', JStr ''ok''), (''stdout'', JStr ''42''),
         (''stderr'', JStr []), (''result'', JStr ''None''), (''execution_count'', JInt 6)]))
   = (Inr (Some (JObj
        [(''cell_id'', JStr ''a''), (''status'', JStr ''ok''), (''stdout'', JStr ''42''),
         (''stderr'', JStr []), (''result'', JStr ''None''), (''execution_count'', JInt 6),
         (''exec_time'', JInt 0)])),
      JObj [(''cells'', JArr [JObj
        [(''id'', JStr ''a''),
         (''type'', JStr ''code''),
         (''source'', JStr ''print(42).''),
         (''outputs'', JArr [JObj [(''type'', JStr ''stdout''), (''text'', JStr ''42'')],
                             JObj [(''type'', JStr ''result''), (''text'', JStr ''None'')]]),
         (''execution_count'', JInt 6),
         (''metadata'', JObj [])]])],
      \<lparr>process = Some 3, execution_count = 5,
       calls = [Write 3 (execute_request (JStr ''a'') (JStr ''print(42).''))]\<rparr>)"
proof -
  let ?r = "[(''cell_id'', JStr ''a''), (''status'', JStr ''ok''), (''stdout'', JStr ''42''),
         (''stderr'', JStr []), (''result'', JStr ''None''), (''execution_count'', JInt 6)]"
  have cells: "getitem (JObj [(''cells'', JArr [JObj (used_cell ''a'' ''x'')])]) ''cells''
      = Inr (JArr ([] @ JObj (used_cell ''a'' ''x'') # []))"
    by simp
  have ids: "list_all has_id []" by simp
  have others: "\<forall>p\<in>set []. getitem p ''id'' \<noteq> Inr (JStr ''a'')" by simp
  have mine: "map_of (used_cell ''a'' ''x'') ''id'' = Some (JStr ''a'')"
    by (simp add: used_cell_def)
  have run: "execute busy_kernel (JStr ''a'') (JStr ''print(42).'') (calm_world (reply_line ?r))
      = (Inr (JObj ?r), \<lparr>process = Some 3, execution_count = 5,
           calls = [Write 3 (execute_request (JStr ''a'') (JStr ''print(42).''))]\<rparr>)"
    by (simp add: execute_def attempt_def exchange_def busy_kernel_def calm_world_def
          reply_line_def json_loads_def called_def)
  show ?thesis
    using execution_rebuilds_outputs [OF cells ids others mine run, of "JInt 0"] run
    by (simp add: post_execute_def over_cells_def and_then_def store_run_def
          record_result_def append_output_def used_cell_def dict_get_def)
qed


section \<open>The execution count of a cell\<close>

text \<open>
  C2, as stated, fails: a reply with status \<open>error\<close> overwrites the cell's execution
  count. Here the child has crashed and left an empty line; \<^verbatim>\<open>execute\<close> returns its
  synthetic error reply, whose count is 0, and \<^verbatim>\<open>/api/execute\<close> stores that 0 over
  the 3 the cell held.
\<close>

theorem error_reply_overwrites_count:
  "post_execute
     (JObj [(''cells'', JArr [JObj (used_cell ''a'' ''x'')])])
     busy_kernel ''a'' ''x'' (JInt 0) (calm_world blank_line)
   = (Inr (Some (JObj
        [(''cell_id'', JStr ''a''), (''status'', JStr ''error''), (''stdout'', JStr []),
         (''stderr'', JStr ''Kernel error: No response from kernel (process may have crashed)''),
         (''result'', JStr []), (''execution_count'', JInt 0), (''exec_time'', JInt 0)])),
      JObj [(''cells'', JArr [JObj
        [(''id'', JStr ''a''),
         (''type'', JStr ''code''),
         (''source'', JStr ''x''),
         (''outputs'', JArr [JObj [(''type'', JStr ''stderr''),
            (''text'', JStr ''Kernel error: No response from kernel (process may have crashed)'')]]),
         (''execution_count'', JInt 0),
         (''metadata'', JObj [])]])],
      \<lparr>process = Some 8, execution_count = 5,
       calls = [Write 3 (execute_request (JStr ''a'') (JStr ''x'')), Popen]\<rparr>)"
  by (simp add: post_execute_def execute_def attempt_def exchange_def recover_def start_def
        check_ready_def json_loads_def kernel_error_def called_def busy_kernel_def
        calm_world_def blank_line_def healthy_child_def ready_line_def used_cell_def
        over_cells_def and_then_def store_run_def record_result_def append_output_def
        dict_get_def)

text \<open>
  C2, amended. When \<^verbatim>\<open>/api/execute\<close> writes the kernel's reply \<open>r\<close> into the cell
  with the requested id, the cell's execution count becomes the reply's
  \<open>execution_count\<close> field, or \<^verbatim>\<open>None\<close> when the reply has none, whatever the
  reply's status. The lines of \<^verbatim>\<open>/api/run-all\<close> that write a reply into a cell do
  the same.
\<close>

theorem execution_count_follows_reply:
  assumes cells: "getitem nb ''cells'' = Inr (JArr (pre @ JObj c # post))"
    and ids: "list_all has_id pre"
    and others: "\<forall>p\<in>set pre. getitem p ''id'' \<noteq> Inr (JStr cell_id)"
    and mine: "map_of c ''id'' = Some (JStr cell_id)"
    and run: "execute k (JStr cell_id) (JStr code) w = (Inr (JObj r), k1)"
  shows "\<exists>nb' c' c''.
           post_execute nb k cell_id code elapsed w =
             (Inr (Some (JObj (AList.update ''exec_time'' elapsed r))), nb', k1)
         \<and> getitem nb' ''cells'' = Inr (JArr (pre @ JObj c' # post))
         \<and> map_of c' ''execution_count'' = Some (dict_get r ''execution_count'' JNull)
         \<and> record_result (JObj r) (JObj c) = Inr (JObj c'')
         \<and> map_of c'' ''execution_count'' = Some (dict_get r ''execution_count'' JNull)"
proof -
  define c' where "c' = AList.update ''outputs'' (JArr (outputs_of r))
                        (AList.update ''execution_count'' (dict_get r ''execution_count'' JNull)
                          (AList.update ''source'' (JStr code) c))"
  define c'' where "c'' = AList.update ''outputs'' (JArr (outputs_of r))
                        (AList.update ''execution_count'' (dict_get r ''execution_count'' JNull) c)"
  obtain nb' where nb': "setitem nb ''cells'' (JArr (pre @ JObj c' # post)) = Inr nb'"
    using setitem_total [OF cells] by blast
  have "post_execute nb k cell_id code elapsed w =
          (Inr (Some (JObj (AList.update ''exec_time'' elapsed r))), nb', k1)"
    using post_execute_found [OF cells ids others mine run] nb' by (simp add: c'_def)
  moreover have "getitem nb' ''cells'' = Inr (JArr (pre @ JObj c' # post))"
    using getitem_setitem_same [OF nb'] .
  moreover have "map_of c' ''execution_count'' = Some (dict_get r ''execution_count'' JNull)"
    by (simp add: c'_def update_conv')
  moreover have "record_result (JObj r) (JObj c) = Inr (JObj c'')"
    by (simp add: c''_def record_result_dict)
  moreover have "map_of c'' ''execution_count'' = Some (dict_get r ''execution_count'' JNull)"
    by (simp add: c''_def update_conv')
  ultimately show ?thesis by blast
qed

theorem execution_count_follows_reply_witness:
  "post_execute
     (JObj [(''cells'', JArr [new_cell ''b'' (JStr ''markdown''), JObj (used_cell ''a'' ''x'')])])
     busy_kernel ''a'' ''1 / 0.'' (JInt 0)
     (calm_world (reply_line
        [(''cell_id'', JStr ''a''), (''status'', JStr ''error''), (''stdout'', JStr []),
         (''stderr'', JStr ''Division by zero''), (''result'', JStr []),
         (''execution_count'', JInt 4)]))
   = (Inr (Some (JObj
        [(''cell_id'', JStr ''a''), (''status'', JStr ''error''), (''stdout'', JStr []),
         (''stderr'', JStr ''Division by zero''), (''result'', JStr []),
         (''execution_count'', JInt 4), (''exec_time'', JInt 0)])),
      JObj [(''cells'', JArr [new_cell ''b'' (JStr ''markdown''), JObj
        [(''id'', JStr ''a''),
         (''type'', JStr ''code''),
         (''source'', JStr ''1 / 0.''),
         (''outputs'', JArr [JObj [(''type'', JStr ''stderr''),
                                   (''text'', JStr ''Division by zero'')]]),
         (''execution_count'', JInt 4),
         (''metadata'', JObj [])]])],
      \<lparr>process = Some 3, execution_count = 5,
       calls = [Write 3 (execute_request (JStr ''a'') (JStr ''1 / 0.''))]\<rparr>)"
proof -
  let ?r = "[(''cell_id'', JStr ''a''), (''status'', JStr ''error''), (''stdout'', JStr []),
         (''stderr'', JStr ''Division by zero''), (''result'', JStr []),
         (''execution_count'', JInt 4)]"
  have cells: "getitem (JObj [(''cells'',
        JArr [new_cell ''b'' (JStr ''markdown''), JObj (used_cell ''a'' ''x'')])]) ''cells''
      = Inr (JArr ([new_cell ''b'' (JStr ''markdown'')] @ JObj (used_cell ''a'' ''x'') # []))"
    by simp
  have ids: "list_all has_id [new_cell ''b'' (JStr ''markdown'')]"
    by (simp add: new_cell_def)
  have others: "\<forall>p\<in>set [new_cell ''b'' (JStr ''markdown'')]. getitem p ''id'' \<noteq> Inr (JStr ''a'')"
    by (simp add: new_cell_def)
  have mine: "map_of (used_cell ''a'' ''x'') ''id'' = Some (JStr ''a'')"
    by (simp add: used_cell_def)
  have run: "execute busy_kernel (JStr ''a'') (JStr ''1 / 0.'') (calm_world (reply_line ?r))
      = (Inr (JObj ?r), \<lparr>process = Some 3, execution_count = 5,
           calls = [Write 3 (execute_request (JStr ''a'') (JStr ''1 / 0.''))]\<rparr>)"
    by (simp add: execute_def attempt_def exchange_def busy_kernel_def calm_world_def
          reply_line_def json_loads_def called_def)
  show ?thesis
    using execution_count_follows_reply [OF cells ids others mine run, of "JInt 0"] run
    by (simp add: post_execute_def over_cells_def and_then_def store_run_def
          record_result_def append_output_def used_cell_def new_cell_def dict_get_def)
qed


section \<open>The supervisor\<close>












section \<open>Executing code\<close>

text \<open>
  \<^verbatim>\<open>execute\<close> lets an exception out exactly when it finds no running child and the
  \<^verbatim>\<open>start()\<close> before its \<^verbatim>\<open>try\<close> raises; in every other case it returns a value.
\<close>

lemma attempt_returns: "\<exists>response k'. attempt k cell_id code w = (Inr response, k')"
  by (cases "exchange k cell_id code w")
     (auto simp: attempt_def recover_def split: sum.splits)

lemma execute_raises_iff:
  "(\<exists>e k'. execute k cell_id code w = (Inl e, k')) =
   ((process k = None \<or> \<not> running w) \<and>
    fst (start (k\<lparr>process := None\<rparr>) False (spawn w)) \<noteq> None)"
proof (cases "process k = None \<or> \<not> running w")
  case alive: False
  obtain response k' where "attempt k cell_id code w = (Inr response, k')"
    using attempt_returns by blast
  with alive show ?thesis by (auto simp: execute_def)
next
  case dead: True
  obtain r k1 where s: "start (k\<lparr>process := None\<rparr>) False (spawn w) = (r, k1)"
    by (cases "start (k\<lparr>process := None\<rparr>) False (spawn w)")
  show ?thesis
  proof (cases r)
    case None
    obtain response k' where "attempt k1 cell_id code w = (Inr response, k')"
      using attempt_returns by blast
    with dead s None show ?thesis by (auto simp: execute_def)
  next
    case (Some e)
    with dead s show ?thesis by (auto simp: execute_def)
  qed
qed

text \<open>
  C1 fails on the code. The supervisor holds the handle of a child that has died, and
  the binary cannot be started again. \<^verbatim>\<open>execute\<close> calls \<^verbatim>\<open>start()\<close> before its
  \<^verbatim>\<open>try\<close>, so the \<^verbatim>\<open>OSError\<close> of \<^verbatim>\<open>Popen\<close> leaves the method, and
  \<^verbatim>\<open>/api/execute\<close> lets it pass: no reply is returned and the cell keeps what it
  held.
\<close>

theorem execute_raises_when_start_fails:
  "execute busy_kernel (JStr ''a'') (JStr ''x'')
     ((calm_world blank_line)\<lparr>running := False, spawn := missing_child\<rparr>)
   = (Inl (OSError ''[Errno 2] No such file or directory: scriptit''),
      \<lparr>process = None, execution_count = 5, calls = [Popen]\<rparr>)
   \<and> post_execute (JObj [(''cells'', JArr [JObj (used_cell ''a'' ''x'')])])
       busy_kernel ''a'' ''x'' (JInt 0)
       ((calm_world blank_line)\<lparr>running := False, spawn := missing_child\<rparr>)
   = (Inl (OSError ''[Errno 2] No such file or directory: scriptit''),
      JObj [(''cells'', JArr [JObj (used_cell ''a'' ''x'')])],
      \<lparr>process = None, execution_count = 5, calls = [Popen]\<rparr>)"
  by (simp add: post_execute_def execute_def start_def busy_kernel_def calm_world_def
        missing_child_def called_def)


section \<open>Running all cells\<close>

lemma wants_run_cell: "is_cell cell \<Longrightarrow> wants_run cell = Inr (runnable cell)"
  by (cases cell)
     (auto simp: wants_run_def runnable_def and_then_def split: option.splits json.splits)

lemma is_cell_fields:
  "is_cell cell \<Longrightarrow>
   \<exists>kvs i s. cell = JObj kvs \<and> getitem cell ''id'' = Inr i \<and> getitem cell ''source'' = Inr (JStr s)"
  by (cases cell) (auto split: option.splits json.splits)

lemma attempt_record:
  assumes "answers_records w" and "attempt k cell_id code w = (Inr response, k')"
  shows "\<exists>kvs. response = JObj kvs"
  using assms
  by (auto simp: attempt_def exchange_def recover_def kernel_error_def answers_records_def
        json_loads_def
      split: option.splits sum.splits json.splits if_splits)

lemma execute_record:
  assumes "answers_records w" and "execute k cell_id code w = (Inr response, k')"
  shows "\<exists>kvs. response = JObj kvs"
  using assms attempt_record
  by (auto simp: execute_def split: if_splits prod.splits option.splits)

lemma start_comes_up:
  "comes_up ch \<noteq> None \<Longrightarrow> fst (start (k\<lparr>process := None\<rparr>) a ch) = None"
  by (auto simp: start_def comes_up_def check_ready_def json_loads_def dict_get_def
      split: sum.splits json.splits if_splits)

lemma execute_returns:
  assumes "comes_up (spawn w) \<noteq> None"
  shows "\<exists>response k'. execute k cell_id code w = (Inr response, k')"
proof -
  have "\<not> (\<exists>e k'. execute k cell_id code w = (Inl e, k'))"
    using start_comes_up [OF assms] by (simp add: execute_raises_iff)
  then show ?thesis
    by (cases "execute k cell_id code w") (metis old.sum.exhaust)
qed

text \<open>
  What \<^verbatim>\<open>/api/run-all\<close> does while no call of \<^verbatim>\<open>execute\<close> raises: with cells as
  the document model has them, a child whose decodable replies are records, and a
  kernel that comes up whenever it must be started, the loop returns one response for
  each cell whose type is \<open>code\<close> and whose stripped source is not empty.
\<close>

lemma run_cells_all:
  assumes "list_all is_cell cs"
    and "\<forall>n. answers_records (ws n)"
    and "\<forall>n. comes_up (spawn (ws n)) \<noteq> None"
  shows "\<exists>responses. fst (run_cells cs k ws n) = Inr responses
           \<and> length responses = length (filter runnable cs)"
  using assms(1)
proof (induction cs arbitrary: k n)
  case Nil
  show ?case by simp
next
  case (Cons cell cs)
  from Cons.prems have cell: "is_cell cell" and rest: "list_all is_cell cs" by simp_all
  note IH = Cons.IH [OF rest]
  show ?case
  proof (cases "runnable cell")
    case False
    with IH [of k n] wants_run_cell [OF cell] show ?thesis
      by (auto split: prod.splits)
  next
    case True
    obtain kvs i s where f: "cell = JObj kvs" "getitem cell ''id'' = Inr i"
        "getitem cell ''source'' = Inr (JStr s)"
      using is_cell_fields [OF cell] by blast
    obtain response k1 where ex: "execute k i (JStr s) (ws n) = (Inr response, k1)"
      using execute_returns assms(3) by blast
    with assms(2) obtain r where r: "response = JObj r"
      using execute_record by blast
    from True f ex r wants_run_cell [OF cell] IH [of k1 "Suc n"] show ?thesis
      by (auto simp: record_result_dict and_then_def split: prod.splits)
  qed
qed

text \<open>
  C4 fails on the code. The claim has every eligible cell executed and the list of all
  responses returned. Here three code cells are to run. The first runs well. The second
  crashes the child, which leaves an empty line, and the binary cannot be started again:
  \<^verbatim>\<open>execute\<close> returns its synthetic error reply and the run goes on, as the claim
  says. For the third cell \<^verbatim>\<open>execute\<close> finds no child and calls \<^verbatim>\<open>start()\<close>
  before its \<^verbatim>\<open>try\<close>; the \<^verbatim>\<open>OSError\<close> leaves \<^verbatim>\<open>execute\<close> and the loop of
  \<^verbatim>\<open>/api/run-all\<close>, which has no \<^verbatim>\<open>try\<close>. The handler sends nothing: the two
  responses collected so far are lost, and the third cell keeps what it held.
\<close>

theorem run_all_stops_when_execute_raises:
  "post_run_all
     (JObj [(''cells'', JArr
        [JObj (used_cell ''a'' ''x''),
         JObj (used_cell ''b'' ''y''),
         JObj (used_cell ''c'' ''z'')])])
     busy_kernel
     (\<lambda>n. if n = 0 then calm_world (reply_line [(''status'', JStr ''ok''),
                                                 (''execution_count'', JInt 6)])
          else (calm_world blank_line)\<lparr>spawn := missing_child, respawn := missing_child\<rparr>)
   = (Inl (OSError ''[Errno 2] No such file or directory: scriptit''),
      JObj [(''cells'', JArr
        [JObj [(''id'', JStr ''a''),
               (''type'', JStr ''code''),
               (''source'', JStr ''x''),
               (''outputs'', JArr []),
               (''execution_count'', JInt 6),
               (''metadata'', JObj [])],
         JObj [(''id'', JStr ''b''),
               (''type'', JStr ''code''),
               (''source'', JStr ''y''),
               (''outputs'', JArr [JObj [(''type'', JStr ''stderr''),
                  (''text'', JStr ''Kernel error: No response from kernel (process may have crashed)'')]]),
               (''execution_count'', JInt 0),
               (''metadata'', JObj [])],
         JObj (used_cell ''c'' ''z'')])],
      \<lparr>process = None, execution_count = 5,
       calls = [Write 3 (execute_request (JStr ''a'') (JStr ''x'')),
                Write 3 (execute_request (JStr ''b'') (JStr ''y'')),
                Popen, Popen]\<rparr>)"
  by (simp add: post_run_all_def wants_run_def strip_def is_space_def execute_def attempt_def
        exchange_def recover_def start_def json_loads_def kernel_error_def called_def
        record_result_def append_output_def dict_get_def and_then_def used_cell_def
        busy_kernel_def calm_world_def reply_line_def blank_line_def missing_child_def)

section \<open>Saving and loading\<close>

text \<open>
  C8. Saving a notebook whose metadata is a \<^verbatim>\<open>dict\<close> to a file that can be opened,
  and loading that file, gives back the notebook as \<^verbatim>\<open>save_notebook\<close> left it: the
  cells, and so their ids and sources, and every other key but the metadata are those of
  the notebook saved, and the metadata differs from the saved notebook's in the key
  \<open>modified\<close> only, which holds the time of saving.
\<close>

theorem save_then_load_round_trip:
  assumes metadata: "getitem nb ''metadata'' = Inr (JObj md)"
  shows "\<exists>d' nb'.
           save_notebook d filepath nb now None = (None, d', nb')
         \<and> load_notebook d' filepath = Inr nb'
         \<and> getitem nb' ''cells'' = getitem nb ''cells''
         \<and> (\<forall>k. k \<noteq> ''metadata'' \<longrightarrow> getitem nb' k = getitem nb k)
         \<and> getitem nb' ''metadata'' =
             Inr (JObj (AList.update ''modified'' (JStr (now @ ''Z'')) md))
         \<and> (\<forall>k. k \<noteq> ''modified'' \<longrightarrow>
               map_of (AList.update ''modified'' (JStr (now @ ''Z'')) md) k = map_of md k)"
proof -
  define stamped where "stamped = JObj (AList.update ''modified'' (JStr (now @ ''Z'')) md)"
  obtain nb' where nb': "setitem nb ''metadata'' stamped = Inr nb'"
    using setitem_total [OF metadata] by blast
  have saved: "save_notebook d filepath nb now None = (None, d(filepath \<mapsto> Inr nb'), nb')"
    using metadata nb' by (simp add: save_notebook_def stamped_def)
  have loaded: "load_notebook (d(filepath \<mapsto> Inr nb')) filepath = Inr nb'"
    by (simp add: load_notebook_def)
  have others: "\<forall>k. k \<noteq> ''metadata'' \<longrightarrow> getitem nb' k = getitem nb k"
    using getitem_setitem_other [OF nb'] by blast
  then have same_cells: "getitem nb' ''cells'' = getitem nb ''cells''"
    by simp
  have stamp: "getitem nb' ''metadata'' =
      Inr (JObj (AList.update ''modified'' (JStr (now @ ''Z'')) md))"
    using getitem_setitem_same [OF nb'] by (simp add: stamped_def)
  have rest: "\<forall>k. k \<noteq> ''modified'' \<longrightarrow>
      map_of (AList.update ''modified'' (JStr (now @ ''Z'')) md) k = map_of md k"
    by (simp add: update_conv')
  from saved loaded same_cells others stamp rest show ?thesis by blast
qed

theorem save_then_load_round_trip_witness:
  "load_notebook
     (fst (snd (save_notebook Map.empty ''nb.nsit''
        (new_notebook (JStr ''T'') ''2024-01-01T00:00:00'' ''2024-01-01T00:00:00'' ''u1'')
        ''2024-02-02T00:00:00'' None)))
     ''nb.nsit''
   = Inr (JObj
      [(''nsit_format'', JStr ''1.0''),
       (''metadata'', JObj
          [(''title'', JStr ''T''),
           (''created'', JStr ''2024-01-01T00:00:00Z''),
           (''modified'', JStr ''2024-02-02T00:00:00Z''),
           (''kernel'', JStr ''scriptit''),
           (''kernel_version'', JStr ''2.0'')]),
       (''cells'', JArr [new_cell ''u1'' (JStr ''code'')])])"
proof -
  have metadata: "getitem
      (new_notebook (JStr ''T'') ''2024-01-01T00:00:00'' ''2024-01-01T00:00:00'' ''u1'')
      ''metadata''
    = Inr (JObj [(''title'', JStr ''T''),
           (''created'', JStr ''2024-01-01T00:00:00Z''),
           (''modified'', JStr ''2024-01-01T00:00:00Z''),
           (''kernel'', JStr ''scriptit''),
           (''kernel_version'', JStr ''2.0'')])"
    by (simp add: new_notebook_def)
  show ?thesis
    using save_then_load_round_trip [OF metadata, of Map.empty "''nb.nsit''" "''2024-02-02T00:00:00''"]
    by (simp add: save_notebook_def load_notebook_def new_notebook_def)
qed

text \<open>
  C9, as stated, fails: \<^verbatim>\<open>load_notebook\<close> returns whatever document the file holds.
  This file holds a record with an unknown format version and neither metadata nor
  cells; it is loaded, and \<^verbatim>\<open>/api/notebook/load\<close> makes it the current notebook.
\<close>

theorem load_accepts_unknown_format:
  "load_notebook [''old.nsit'' \<mapsto> Inr (JObj [(''nsit_format'', JStr ''9.9'')])] ''old.nsit''
     = Inr (JObj [(''nsit_format'', JStr ''9.9'')])
   \<and> post_notebook_load JNull None
        [''old.nsit'' \<mapsto> Inr (JObj [(''nsit_format'', JStr ''9.9'')])] ''old.nsit''
     = (Inr (JObj [(''nsit_format'', JStr ''9.9'')]),
        JObj [(''nsit_format'', JStr ''9.9'')],
        Some ''old.nsit'')"
  by (simp add: load_notebook_def post_notebook_load_def)

text \<open>
  C9, amended. \<^verbatim>\<open>load_notebook\<close> returns the document that the file's text denotes
  as it is, whatever fields it has and whatever its format version, and
  \<^verbatim>\<open>/api/notebook/load\<close> makes that document the current notebook. Loading fails
  only with the exception of opening or decoding the file: where no file is, or where
  the file cannot be read as JSON.
\<close>

theorem load_returns_any_document:
  "(d filepath = Some (Inr doc) \<longrightarrow>
      load_notebook d filepath = Inr doc
    \<and> (filepath \<noteq> [] \<longrightarrow>
         post_notebook_load nb path d filepath = (Inr doc, doc, Some filepath)))
   \<and> ((\<exists>e. load_notebook d filepath = Inl e) =
       (d filepath = None \<or> (\<exists>e. d filepath = Some (Inl e))))"
  by (cases "d filepath")
     (auto simp: load_notebook_def post_notebook_load_def split: sum.splits)

theorem load_returns_any_document_witness:
  "load_notebook
     [''nb.nsit'' \<mapsto> Inr (new_notebook (JStr ''T'') ''t1'' ''t2'' ''u1'')] ''nb.nsit''
     = Inr (new_notebook (JStr ''T'') ''t1'' ''t2'' ''u1'')
   \<and> post_notebook_load JNull None
       [''nb.nsit'' \<mapsto> Inr (new_notebook (JStr ''T'') ''t1'' ''t2'' ''u1'')] ''nb.nsit''
     = (Inr (new_notebook (JStr ''T'') ''t1'' ''t2'' ''u1''),
        new_notebook (JStr ''T'') ''t1'' ''t2'' ''u1'',
        Some ''nb.nsit'')"
  using load_returns_any_document
    [of "[''nb.nsit'' \<mapsto> Inr (new_notebook (JStr ''T'') ''t1'' ''t2'' ''u1'')]" "''nb.nsit''"
        "new_notebook (JStr ''T'') ''t1'' ''t2'' ''u1''" JNull None]
  by simp


end
